theory Spec2Isabelle
  imports Main
begin

section \<open>Strings, numbers and argument values of the runtime\<close>

text \<open>
  The server is a TypeScript program (\<^verbatim>\<open>src/index.ts\<close>). Every string it handles
  enters or leaves the process as bytes (environment variables, tool arguments, the
  command line sent to the remote shell), so a string is modelled as the list of the
  bytes of its UTF-8 encoding: \<^typ>\<open>string\<close>. The conversions below act on ASCII
  characters only and leave every byte above 0x7F alone, as the runtime does with
  the code points those bytes encode.
\<close>

text \<open>
  The result of \<^verbatim>\<open>parseInt\<close> is a Number: either NaN or an integer. (Integers are
  kept exact here; the runtime rounds beyond \<open>2^53\<close>, far above any port number.)
\<close>

datatype jsnum = NaN | Num int

text \<open>Decimal digits of a natural number, most significant first.\<close>

fun decimal :: "nat \<Rightarrow> string" where
  "decimal n = (if n < 10 then [char_of (48 + n)] else decimal (n div 10) @ [char_of (48 + n mod 10)])"

declare decimal.simps [simp del]

text \<open>Template interpolation \<^verbatim>\<open>${n}\<close> of an integer and of a Number.\<close>

definition int_to_string :: "int \<Rightarrow> string" where
  "int_to_string i = (if i < 0 then CHR ''-'' # decimal (nat (- i)) else decimal (nat i))"

fun num_to_string :: "jsnum \<Rightarrow> string" where
  "num_to_string NaN = ''NaN''"
| "num_to_string (Num i) = int_to_string i"

text \<open>
  Leading white space as \<^verbatim>\<open>parseInt\<close> skips it: TAB, LF, VT, FF, CR, SP, and in UTF-8
  the code points U+00A0, U+1680, U+2000 to U+200A, U+2028, U+2029, U+202F, U+205F,
  U+3000 and U+FEFF.
\<close>

definition is_ws1 :: "char \<Rightarrow> bool" where
  "is_ws1 a \<longleftrightarrow> a \<in> {CHR 0x09, CHR 0x0A, CHR 0x0B, CHR 0x0C, CHR 0x0D, CHR 0x20}"

definition is_ws2 :: "char \<Rightarrow> char \<Rightarrow> bool" where
  "is_ws2 a b \<longleftrightarrow> a = CHR 0xC2 \<and> b = CHR 0xA0"

definition is_ws3 :: "char \<Rightarrow> char \<Rightarrow> char \<Rightarrow> bool" where
  "is_ws3 a b c \<longleftrightarrow>
     (a = CHR 0xE1 \<and> b = CHR 0x9A \<and> c = CHR 0x80) \<or>
     (a = CHR 0xE2 \<and> b = CHR 0x80 \<and>
        (of_char c \<in> {0x80 .. (0x8A::nat)} \<or> c = CHR 0xA8 \<or> c = CHR 0xA9 \<or> c = CHR 0xAF)) \<or>
     (a = CHR 0xE2 \<and> b = CHR 0x81 \<and> c = CHR 0x9F) \<or>
     (a = CHR 0xE3 \<and> b = CHR 0x80 \<and> c = CHR 0x80) \<or>
     (a = CHR 0xEF \<and> b = CHR 0xBB \<and> c = CHR 0xBF)"

fun trim_start :: "string \<Rightarrow> string" where
  "trim_start (a # b # c # s) =
     (if is_ws1 a then trim_start (b # c # s)
      else if is_ws2 a b then trim_start (c # s)
      else if is_ws3 a b c then trim_start s
      else a # b # c # s)"
| "trim_start [a, b] =
     (if is_ws1 a then trim_start [b] else if is_ws2 a b then [] else [a, b])"
| "trim_start [a] = (if is_ws1 a then [] else [a])"
| "trim_start [] = []"

text \<open>The value of a character as a digit of the given radix (10 or 16).\<close>

definition digit_val :: "nat \<Rightarrow> char \<Rightarrow> nat option" where
  "digit_val r c =
     (let k = (of_char c :: nat);
          v = (if 48 \<le> k \<and> k \<le> 57 then Some (k - 48)
               else if 97 \<le> k \<and> k \<le> 122 then Some (k - 87)
               else if 65 \<le> k \<and> k \<le> 90 then Some (k - 55)
               else None)
      in case v of None \<Rightarrow> None | Some d \<Rightarrow> if d < r then Some d else None)"

text \<open>
  \<^verbatim>\<open>parseInt(s)\<close> with no radix: skip white space, read a sign, read a \<^verbatim>\<open>0x\<close>
  prefix (radix 16, otherwise 10), take the longest run of digits; no digit gives NaN.
\<close>

definition parseInt :: "string \<Rightarrow> jsnum" where
  "parseInt str =
     (let s = trim_start str;
          neg = (case s of c # _ \<Rightarrow> c = CHR ''-'' | [] \<Rightarrow> False);
          s1 = (case s of c # t \<Rightarrow> if c = CHR ''+'' \<or> c = CHR ''-'' then t else s | [] \<Rightarrow> s);
          hex = (take 2 s1 = ''0x'' \<or> take 2 s1 = ''0X'');
          r = (if hex then 16 else 10);
          s2 = (if hex then drop 2 s1 else s1);
          z = takeWhile (\<lambda>c. digit_val r c \<noteq> None) s2;
          m = foldl (\<lambda>a c. a * r + the (digit_val r c)) 0 z
      in if z = [] then NaN else Num (if neg then - int m else int m))"

text \<open>
  A thrown or rejected \<^verbatim>\<open>Error\<close> is represented by its message; \<^verbatim>\<open>${error}\<close>
  renders it as \<^verbatim>\<open>Error: <message>\<close>.
\<close>

type_synonym js_error = string

definition error_to_string :: "js_error \<Rightarrow> string" where
  "error_to_string m = ''Error: '' @ m"

section \<open>The credential resolver: getSSHConfig\<close>

record SSHConfig =
  host :: string
  port :: jsnum
  username :: string
  password :: "string option"
  privateKey :: "string option"
  passphrase :: "string option"

text \<open>
  \<^verbatim>\<open>process.env\<close> is a partial map; an unset variable reads as \<^verbatim>\<open>undefined\<close>.
  \<^verbatim>\<open>!x\<close> and \<^verbatim>\<open>x || d\<close> treat \<^verbatim>\<open>undefined\<close> and the empty string alike.
\<close>

type_synonym environment = "string \<rightharpoonup> string"

definition falsy :: "string option \<Rightarrow> bool" where
  "falsy v \<longleftrightarrow> (case v of None \<Rightarrow> True | Some s \<Rightarrow> s = [])"

text \<open>
  \<^verbatim>\<open>fs.readFileSync(path, 'utf8')\<close> is a parameter: \<open>Inr\<close> the file's text, \<open>Inl\<close> the
  message of the error it throws.
\<close>

type_synonym file_reader = "string \<Rightarrow> js_error + string"

definition getSSHConfig :: "environment \<Rightarrow> file_reader \<Rightarrow> js_error + SSHConfig" where
  "getSSHConfig env readFileSync =
     (let host = env ''SSH_HOST'';
          port = parseInt (if falsy (env ''SSH_PORT'') then ''22'' else the (env ''SSH_PORT''));
          username = env ''SSH_USERNAME'';
          password = env ''SSH_PASSWORD'';
          privateKeyPath = env ''SSH_PRIVATE_KEY_PATH'';
          passphrase = env ''SSH_PASSPHRASE''
      in if falsy host \<or> falsy username
         then Inl ''SSH_HOST and SSH_USERNAME environment variables are required''
         else
           let config = \<lparr>host = the host, port = port, username = the username,
                         password = None, privateKey = None, passphrase = None\<rparr>
           in if \<not> falsy password then Inr (config\<lparr>password := password\<rparr>)
              else if \<not> falsy privateKeyPath then
                (case readFileSync (the privateKeyPath) of
                   Inr key \<Rightarrow>
                     Inr (if \<not> falsy passphrase
                          then config\<lparr>privateKey := Some key, passphrase := passphrase\<rparr>
                          else config\<lparr>privateKey := Some key\<rparr>)
                 | Inl err \<Rightarrow>
                     Inl (''Failed to read private key from '' @ the privateKeyPath @ '': ''
                          @ error_to_string err))
              else Inl ''Either SSH_PASSWORD or SSH_PRIVATE_KEY_PATH must be provided'')"

text \<open>
  Predicates used to state properties of the resolver: a port number, and a value that is
  not numeric, in that its first character after any leading white space is neither a
  sign nor a decimal digit.
\<close>

definition valid_port :: "jsnum \<Rightarrow> bool" where
  "valid_port p \<longleftrightarrow> (case p of NaN \<Rightarrow> False | Num n \<Rightarrow> 1 \<le> n \<and> n \<le> 65535)"

definition starts_non_numeric :: "string \<Rightarrow> bool" where
  "starts_non_numeric s \<longleftrightarrow>
     (case trim_start s of [] \<Rightarrow> False
      | c # _ \<Rightarrow> c \<noteq> CHR ''+'' \<and> c \<noteq> CHR ''-'' \<and> digit_val 10 c = None)"

section \<open>Asynchronous calls\<close>

text \<open>
  What becomes of an awaited call: its promise resolves, it rejects, it never settles,
  or an \<^verbatim>\<open>'error'\<close> event is emitted on an emitter that has no listener for it, which
  the runtime throws as an uncaught exception of the process.
\<close>

datatype 'a outcome = Resolved 'a | Rejected js_error | Pending | Uncaught js_error

fun await :: "'a outcome \<Rightarrow> ('a \<Rightarrow> 'b outcome) \<Rightarrow> 'b outcome" where
  "await (Resolved v) k = k v"
| "await (Rejected e) k = Rejected e"
| "await Pending k = Pending"
| "await (Uncaught e) k = Uncaught e"

section \<open>The world outside the process\<close>

datatype conn_event = Ready | ConnError js_error

datatype chan_event = Data string | ErrData string | End | ErrEnd | Exit int | Close int

datatype xfer_event = ReadError js_error | WriteError js_error | WriteClose

text \<open>
  Clients are numbered in the order in which they are created. The world fixes what the
  environment and the libraries answer: the events of each client's connection attempt,
  what \<^verbatim>\<open>conn.exec\<close> hands to its callback (an error, or a stream and the events on
  it), what \<^verbatim>\<open>conn.sftp\<close> and \<^verbatim>\<open>sftp.readFile\<close> hand to theirs, the events of the two
  streams of a transfer, and, for calls started together, the order in which their
  connection attempts settle and the order in which the calls themselves settle (both as
  lists of the calls' positions).
\<close>

record world =
  env :: environment
  readFileSync :: file_reader
  connect :: "nat \<Rightarrow> SSHConfig \<Rightarrow> conn_event list"
  exec :: "nat \<Rightarrow> string \<Rightarrow> js_error + chan_event list"
  sftp :: "nat \<Rightarrow> js_error option"
  sftp_readFile :: "nat \<Rightarrow> string \<Rightarrow> js_error + string"
  upload_stream :: "nat \<Rightarrow> string \<Rightarrow> string \<Rightarrow> xfer_event list"
  download_stream :: "nat \<Rightarrow> string \<Rightarrow> string \<Rightarrow> xfer_event list"
  ready_order :: "nat list"
  completion_order :: "nat list"

section \<open>The session cache and factory\<close>

datatype call =
    ExecuteRemoteCommand string
  | GetRemoteFileContent string
  | UploadFile string string
  | DownloadFile string string

text \<open>
  The state of the process: the \<^verbatim>\<open>connections\<close> map, the configurations with which
  \<^verbatim>\<open>createSSHConnection\<close> has been invoked so far (the client created by the \<open>n\<close>-th
  invocation is client \<open>n\<close>), and the executor functions called so far.
\<close>

record server_state =
  connections :: "string \<rightharpoonup> nat"
  opened :: "SSHConfig list"
  calls :: "call list"

definition initial_state :: server_state where
  "initial_state = \<lparr>connections = Map.empty, opened = [], calls = []\<rparr>"

text \<open>
  \<^verbatim>\<open>createSSHConnection\<close> resolves with the client on its \<^verbatim>\<open>'ready'\<close> event and rejects
  on its \<^verbatim>\<open>'error'\<close> event, whichever comes first.
\<close>

fun first_conn_event :: "nat \<Rightarrow> conn_event list \<Rightarrow> nat outcome" where
  "first_conn_event conn [] = Pending"
| "first_conn_event conn (Ready # _) = Resolved conn"
| "first_conn_event conn (ConnError err # _) = Rejected err"

definition createSSHConnection :: "world \<Rightarrow> nat \<Rightarrow> SSHConfig \<Rightarrow> nat outcome" where
  "createSSHConnection w conn config = first_conn_event conn (connect w conn config)"

definition connectionKey :: "SSHConfig \<Rightarrow> string" where
  "connectionKey config =
     host config @ '':'' @ num_to_string (port config) @ '':'' @ username config"

text \<open>
  \<^verbatim>\<open>getSSHConnection\<close> runs up to its \<^verbatim>\<open>await\<close> without interruption: it resolves the
  configuration, looks the key up and, on a miss, invokes the factory. It continues
  when the factory's promise settles: on success it stores the client under the key.
  Other calls may run between the two halves.
\<close>

datatype acquisition = Failed js_error | Cached nat | Opening string nat SSHConfig

definition getSSHConnection_begin :: "world \<Rightarrow> server_state \<Rightarrow> acquisition \<times> server_state" where
  "getSSHConnection_begin w st =
     (case getSSHConfig (env w) (readFileSync w) of
        Inl err \<Rightarrow> (Failed err, st)
      | Inr config \<Rightarrow>
          (let key = connectionKey config
           in (case connections st key of
                 Some conn \<Rightarrow> (Cached conn, st)
               | None \<Rightarrow> (Opening key (length (opened st)) config,
                          st\<lparr>opened := opened st @ [config]\<rparr>))))"

fun getSSHConnection_outcome :: "world \<Rightarrow> acquisition \<Rightarrow> nat outcome" where
  "getSSHConnection_outcome w (Failed err) = Rejected err"
| "getSSHConnection_outcome w (Cached conn) = Resolved conn"
| "getSSHConnection_outcome w (Opening key conn config) = createSSHConnection w conn config"

fun getSSHConnection_resume :: "world \<Rightarrow> acquisition \<Rightarrow> server_state \<Rightarrow> server_state" where
  "getSSHConnection_resume w (Opening key conn config) st =
     (case createSSHConnection w conn config of
        Resolved c \<Rightarrow> st\<lparr>connections := (connections st)(key \<mapsto> c)\<rparr>
      | _ \<Rightarrow> st)"
| "getSSHConnection_resume w _ st = st"

text \<open>A call of \<^verbatim>\<open>getSSHConnection\<close> that nothing interleaves with.\<close>

definition getSSHConnection :: "world \<Rightarrow> server_state \<Rightarrow> nat outcome \<times> server_state" where
  "getSSHConnection w st =
     (let (a, st1) = getSSHConnection_begin w st
      in (getSSHConnection_outcome w a, getSSHConnection_resume w a st1))"

text \<open>Calls of \<^verbatim>\<open>getSSHConnection\<close> one after the other, each in its own world.\<close>

fun acquire_in_turn :: "world list \<Rightarrow> server_state \<Rightarrow> server_state" where
  "acquire_in_turn [] st = st"
| "acquire_in_turn (w # ws) st = acquire_in_turn ws (snd (getSSHConnection w st))"

definition opens_for :: "string \<Rightarrow> server_state \<Rightarrow> nat" where
  "opens_for key st = length (filter (\<lambda>config. connectionKey config = key) (opened st))"

section \<open>The remote operation executor\<close>

text \<open>
  The result of a command. The exit code is the number the \<^verbatim>\<open>'close'\<close> event carries (a
  command ended by a signal, for which the event carries no number, is not represented).
\<close>

record exec_result =
  stdout :: string
  stderr :: string
  exitCode :: int

text \<open>
  The three listeners \<^verbatim>\<open>executeRemoteCommand\<close> puts on the stream of a command:
  \<^verbatim>\<open>'data'\<close> appends to \<^verbatim>\<open>stdout\<close>, \<^verbatim>\<open>'data'\<close> of \<^verbatim>\<open>stream.stderr\<close> appends to
  \<^verbatim>\<open>stderr\<close>, \<^verbatim>\<open>'close'\<close> resolves with what has been gathered. Every other event
  has no listener.
\<close>

fun channel_run :: "string \<Rightarrow> string \<Rightarrow> chan_event list \<Rightarrow> exec_result outcome" where
  "channel_run out err [] = Pending"
| "channel_run out err (Data d # evs) = channel_run (out @ d) err evs"
| "channel_run out err (ErrData d # evs) = channel_run out (err @ d) evs"
| "channel_run out err (Close code # evs) =
     Resolved \<lparr>stdout = out, stderr = err, exitCode = code\<rparr>"
| "channel_run out err (End # evs) = channel_run out err evs"
| "channel_run out err (ErrEnd # evs) = channel_run out err evs"
| "channel_run out err (Exit code # evs) = channel_run out err evs"

definition conn_exec :: "world \<Rightarrow> nat \<Rightarrow> string \<Rightarrow> exec_result outcome" where
  "conn_exec w conn command =
     (case exec w conn command of
        Inl err \<Rightarrow> Rejected err
      | Inr events \<Rightarrow> channel_run [] [] events)"

text \<open>
  \<^verbatim>\<open>executeRemoteCommand\<close>, cut at the \<^verbatim>\<open>await\<close> of the connection like
  \<^verbatim>\<open>getSSHConnection\<close>: what it does at once, what its promise becomes, and the
  uninterrupted call.
\<close>

definition executeRemoteCommand_begin ::
    "world \<Rightarrow> string \<Rightarrow> server_state \<Rightarrow> acquisition \<times> server_state" where
  "executeRemoteCommand_begin w command st =
     getSSHConnection_begin w (st\<lparr>calls := calls st @ [ExecuteRemoteCommand command]\<rparr>)"

definition executeRemoteCommand_outcome ::
    "world \<Rightarrow> string \<Rightarrow> acquisition \<Rightarrow> exec_result outcome" where
  "executeRemoteCommand_outcome w command a =
     await (getSSHConnection_outcome w a) (\<lambda>conn. conn_exec w conn command)"

definition executeRemoteCommand ::
    "world \<Rightarrow> string \<Rightarrow> server_state \<Rightarrow> exec_result outcome \<times> server_state" where
  "executeRemoteCommand w command st =
     (let (a, st1) = executeRemoteCommand_begin w command st
      in (executeRemoteCommand_outcome w command a, getSSHConnection_resume w a st1))"

definition getRemoteFileContent ::
    "world \<Rightarrow> string \<Rightarrow> server_state \<Rightarrow> string outcome \<times> server_state" where
  "getRemoteFileContent w filePath st =
     (let (conn, st1) = getSSHConnection w (st\<lparr>calls := calls st @ [GetRemoteFileContent filePath]\<rparr>)
      in (await conn (\<lambda>conn.
            case sftp w conn of
              Some err \<Rightarrow> Rejected err
            | None \<Rightarrow>
                (case sftp_readFile w conn filePath of
                   Inl err \<Rightarrow> Rejected err
                 | Inr data \<Rightarrow> Resolved data)), st1))"

text \<open>
  A transfer pipes a read stream into a write stream. The write stream has a
  \<^verbatim>\<open>'close'\<close> listener, which resolves, and an \<^verbatim>\<open>'error'\<close> listener, which rejects. The
  read stream has no \<^verbatim>\<open>'error'\<close> listener. In an upload the read stream is the local
  one of \<^verbatim>\<open>fs.createReadStream\<close>, whose error the runtime then throws as an uncaught
  exception. In a download it is the remote one of \<^verbatim>\<open>sftp.createReadStream\<close>, whose
  error the client library does not throw: nothing hears of it, and the call goes on
  waiting for the write stream.
\<close>

fun upload_transfer :: "xfer_event list \<Rightarrow> unit outcome" where
  "upload_transfer [] = Pending"
| "upload_transfer (WriteClose # _) = Resolved ()"
| "upload_transfer (WriteError err # _) = Rejected err"
| "upload_transfer (ReadError err # _) = Uncaught err"

fun download_transfer :: "xfer_event list \<Rightarrow> unit outcome" where
  "download_transfer [] = Pending"
| "download_transfer (WriteClose # _) = Resolved ()"
| "download_transfer (WriteError err # _) = Rejected err"
| "download_transfer (ReadError err # evs) = download_transfer evs"

definition uploadFile ::
    "world \<Rightarrow> string \<Rightarrow> string \<Rightarrow> server_state \<Rightarrow> unit outcome \<times> server_state" where
  "uploadFile w localPath remotePath st =
     (let (conn, st1) = getSSHConnection w (st\<lparr>calls := calls st @ [UploadFile localPath remotePath]\<rparr>)
      in (await conn (\<lambda>conn.
            case sftp w conn of
              Some err \<Rightarrow> Rejected err
            | None \<Rightarrow> upload_transfer (upload_stream w conn localPath remotePath)), st1))"

definition downloadFile ::
    "world \<Rightarrow> string \<Rightarrow> string \<Rightarrow> server_state \<Rightarrow> unit outcome \<times> server_state" where
  "downloadFile w remotePath localPath st =
     (let (conn, st1) = getSSHConnection w (st\<lparr>calls := calls st @ [DownloadFile remotePath localPath]\<rparr>)
      in (await conn (\<lambda>conn.
            case sftp w conn of
              Some err \<Rightarrow> Rejected err
            | None \<Rightarrow> download_transfer (download_stream w conn remotePath localPath)), st1))"

section \<open>Tool arguments\<close>

text \<open>
  The values an argument can have, as far as the tools' schemas declare them (strings and
  booleans), with \<^verbatim>\<open>null\<close> and with \<^verbatim>\<open>undefined\<close> for an argument that is not there.
  Numbers, arrays and objects are not represented.
\<close>

datatype jsval = JUndefined | JNull | JBool bool | JStr string

fun to_String :: "jsval \<Rightarrow> string" where
  "to_String JUndefined = ''undefined''"
| "to_String JNull = ''null''"
| "to_String (JBool b) = (if b then ''true'' else ''false'')"
| "to_String (JStr s) = s"

fun to_Boolean :: "jsval \<Rightarrow> bool" where
  "to_Boolean JUndefined = False"
| "to_Boolean JNull = False"
| "to_Boolean (JBool b) = b"
| "to_Boolean (JStr s) = (s \<noteq> [])"

definition js_or :: "jsval \<Rightarrow> jsval \<Rightarrow> jsval" where
  "js_or a b = (if to_Boolean a then a else b)"

record request =
  name :: string
  arguments :: "(string \<rightharpoonup> jsval) option"

text \<open>\<^verbatim>\<open>request.params.arguments?.k\<close>\<close>

definition arg :: "request \<Rightarrow> string \<Rightarrow> jsval" where
  "arg req k =
     (case arguments req of
        None \<Rightarrow> JUndefined
      | Some m \<Rightarrow> (case m k of None \<Rightarrow> JUndefined | Some v \<Rightarrow> v))"

section \<open>Quoting\<close>

definition hex_digit :: "nat \<Rightarrow> char" where
  "hex_digit d = (if d < 10 then char_of (48 + d) else char_of (87 + d))"

text \<open>
  \<^verbatim>\<open>JSON.stringify\<close> of a string: the string between double quotes, with the double
  quote and the backslash escaped by a backslash, the control characters below 0x20
  written \<^verbatim>\<open>\b \t \n \f \r\<close> or \<^verbatim>\<open>\u00XX\<close>, and every other character as it is.
\<close>

definition json_escape :: "char \<Rightarrow> string" where
  "json_escape c =
     (if c = CHR 0x22 then [CHR 0x5C, CHR 0x22]
      else if c = CHR 0x5C then [CHR 0x5C, CHR 0x5C]
      else if c = CHR 0x08 then [CHR 0x5C, CHR ''b'']
      else if c = CHR 0x09 then [CHR 0x5C, CHR ''t'']
      else if c = CHR 0x0A then [CHR 0x5C, CHR ''n'']
      else if c = CHR 0x0C then [CHR 0x5C, CHR ''f'']
      else if c = CHR 0x0D then [CHR 0x5C, CHR ''r'']
      else if (of_char c :: nat) < 32
        then [CHR 0x5C, CHR ''u'', CHR ''0'', CHR ''0'',
              hex_digit (of_char c div 16), hex_digit (of_char c mod 16)]
      else [c])"

definition JSON_stringify :: "string \<Rightarrow> string" where
  "JSON_stringify s = [CHR 0x22] @ concat (map json_escape s) @ [CHR 0x22]"

text \<open>The command lines of \<^verbatim>\<open>write_file\<close> and \<^verbatim>\<open>list_directory\<close>.\<close>

definition write_file_command :: "string \<Rightarrow> string \<Rightarrow> string" where
  "write_file_command filePath content =
     ''echo '' @ JSON_stringify content @ '' > '' @ JSON_stringify filePath"

definition list_directory_command :: "string \<Rightarrow> bool \<Rightarrow> string" where
  "list_directory_command dirPath detailed =
     (if detailed then ''ls -la '' @ JSON_stringify dirPath else ''ls '' @ JSON_stringify dirPath)"

text \<open>
  How a POSIX shell reads a command line, as far as quoting goes. Outside quotes a
  backslash quotes the next character, a single quote opens a literal string and a
  double quote opens a quoted string. Between double quotes a backslash quotes a
  following \<^verbatim>\<open>$\<close>, backquote, double quote, backslash or newline and is an ordinary
  character before anything else; the other characters stand for themselves, except
  the backquote and \<^verbatim>\<open>$(\<close>, which start a command substitution there as they do
  outside quotes. \<open>substitutes m s\<close> tells whether the shell, reading \<open>s\<close> in mode \<open>m\<close>,
  comes to a command substitution.
\<close>

datatype sh_mode = Unquoted | DoubleQuoted | SingleQuoted

fun substitutes :: "sh_mode \<Rightarrow> string \<Rightarrow> bool" where
  "substitutes m [] = False"
| "substitutes SingleQuoted (c # cs) =
     (if c = CHR 0x27 then substitutes Unquoted cs else substitutes SingleQuoted cs)"
| "substitutes m [c] = (c = CHR 0x60)"
| "substitutes m (c # d # cs) =
     (if c = CHR 0x5C then substitutes m cs
      else if c = CHR 0x60 then True
      else if c = CHR ''$'' \<and> d = CHR ''('' then True
      else if c = CHR 0x22
        then substitutes (if m = DoubleQuoted then Unquoted else DoubleQuoted) (d # cs)
      else if c = CHR 0x27 \<and> m = Unquoted then substitutes SingleQuoted (d # cs)
      else substitutes m (d # cs))"

section \<open>The operation dispatcher\<close>

record response =
  content_text :: string
  isError :: bool

text \<open>The fixed texts of the responses, as UTF-8.\<close>

definition nl :: string where
  "nl = [CHR 0x0A]"

definition txt_error :: string where
  "txt_error = [CHR 0xE9, CHR 0x94, CHR 0x99, CHR 0xE8, CHR 0xAF, CHR 0xAF] @ '': ''"

definition txt_command :: string where
  "txt_command = [CHR 0xE5, CHR 0x91, CHR 0xBD, CHR 0xE4, CHR 0xBB, CHR 0xA4] @ '': ''"

definition txt_exit_code :: string where
  "txt_exit_code = [CHR 0xE9, CHR 0x80, CHR 0x80, CHR 0xE5, CHR 0x87, CHR 0xBA, CHR 0xE7, CHR 0xA0, CHR 0x81] @ '': ''"

definition txt_stdout :: string where
  "txt_stdout = [CHR 0xE6, CHR 0xA0, CHR 0x87, CHR 0xE5, CHR 0x87, CHR 0x86, CHR 0xE8, CHR 0xBE, CHR 0x93, CHR 0xE5, CHR 0x87, CHR 0xBA] @ '':''"

definition txt_stderr :: string where
  "txt_stderr = [CHR 0xE6, CHR 0xA0, CHR 0x87, CHR 0xE5, CHR 0x87, CHR 0x86, CHR 0xE9, CHR 0x94, CHR 0x99, CHR 0xE8, CHR 0xAF, CHR 0xAF] @ '':''"

definition txt_file :: string where
  "txt_file = [CHR 0xE6, CHR 0x96, CHR 0x87, CHR 0xE4, CHR 0xBB, CHR 0xB6] @ '': ''"

definition txt_content :: string where
  "txt_content = [CHR 0xE5, CHR 0x86, CHR 0x85, CHR 0xE5, CHR 0xAE, CHR 0xB9] @ '':''"

definition txt_file_sp :: string where
  "txt_file_sp = [CHR 0xE6, CHR 0x96, CHR 0x87, CHR 0xE4, CHR 0xBB, CHR 0xB6] @ '' ''"

definition txt_written :: string where
  "txt_written = '' '' @ [CHR 0xE5, CHR 0x86, CHR 0x99, CHR 0xE5, CHR 0x85, CHR 0xA5, CHR 0xE6, CHR 0x88, CHR 0x90, CHR 0xE5, CHR 0x8A, CHR 0x9F]"

definition txt_write_failed :: string where
  "txt_write_failed = [CHR 0xE5, CHR 0x86, CHR 0x99, CHR 0xE5, CHR 0x85, CHR 0xA5, CHR 0xE6, CHR 0x96, CHR 0x87, CHR 0xE4, CHR 0xBB, CHR 0xB6, CHR 0xE5, CHR 0xA4, CHR 0xB1, CHR 0xE8, CHR 0xB4, CHR 0xA5] @ '': ''"

definition txt_file_from :: string where
  "txt_file_from = [CHR 0xE6, CHR 0x96, CHR 0x87, CHR 0xE4, CHR 0xBB, CHR 0xB6, CHR 0xE4, CHR 0xBB, CHR 0x8E] @ '' ''"

definition txt_uploaded_to :: string where
  "txt_uploaded_to = '' '' @ [CHR 0xE4, CHR 0xB8, CHR 0x8A, CHR 0xE4, CHR 0xBC, CHR 0xA0, CHR 0xE5, CHR 0x88, CHR 0xB0] @ '' ''"

definition txt_success :: string where
  "txt_success = '' '' @ [CHR 0xE6, CHR 0x88, CHR 0x90, CHR 0xE5, CHR 0x8A, CHR 0x9F]"

definition txt_downloaded_to :: string where
  "txt_downloaded_to = '' '' @ [CHR 0xE4, CHR 0xB8, CHR 0x8B, CHR 0xE8, CHR 0xBD, CHR 0xBD, CHR 0xE5, CHR 0x88, CHR 0xB0] @ '' ''"

definition txt_directory :: string where
  "txt_directory = [CHR 0xE7, CHR 0x9B, CHR 0xAE, CHR 0xE5, CHR 0xBD, CHR 0x95] @ '': ''"

definition txt_monitor :: string where
  "txt_monitor = [CHR 0xE7, CHR 0xB3, CHR 0xBB, CHR 0xE7, CHR 0xBB, CHR 0x9F, CHR 0xE7, CHR 0x9B, CHR 0x91, CHR 0xE6, CHR 0x8E, CHR 0xA7] @ '' (''"

definition ok :: "string \<Rightarrow> response outcome" where
  "ok t = Resolved \<lparr>content_text = t, isError = False\<rparr>"

subsection \<open>The seven tools\<close>

definition execute_command :: "world \<Rightarrow> request \<Rightarrow> server_state \<Rightarrow> response outcome \<times> server_state" where
  "execute_command w req st =
     (let command = to_String (arg req ''command'')
      in if command = [] then (Rejected ''Command is required'', st)
         else
           let (result, st1) = executeRemoteCommand w command st
           in (await result (\<lambda>result.
                 ok (txt_command @ command @ nl @ txt_exit_code @ int_to_string (exitCode result)
                     @ nl @ nl @ txt_stdout @ nl @ stdout result
                     @ nl @ nl @ txt_stderr @ nl @ stderr result)), st1))"

definition read_file :: "world \<Rightarrow> request \<Rightarrow> server_state \<Rightarrow> response outcome \<times> server_state" where
  "read_file w req st =
     (let filePath = to_String (arg req ''path'')
      in if filePath = [] then (Rejected ''File path is required'', st)
         else
           let (content, st1) = getRemoteFileContent w filePath st
           in (await content (\<lambda>content.
                 ok (txt_file @ filePath @ nl @ nl @ txt_content @ nl @ content)), st1))"

definition write_file :: "world \<Rightarrow> request \<Rightarrow> server_state \<Rightarrow> response outcome \<times> server_state" where
  "write_file w req st =
     (let filePath = to_String (arg req ''path'');
          content = to_String (arg req ''content'')
      in if filePath = [] \<or> content = [] then (Rejected ''File path and content are required'', st)
         else
           let command = write_file_command filePath content;
               (result, st1) = executeRemoteCommand w command st
           in (await result (\<lambda>result.
                 if exitCode result = 0 then ok (txt_file_sp @ filePath @ txt_written)
                 else Rejected (txt_write_failed @ stderr result)), st1))"

definition upload_file :: "world \<Rightarrow> request \<Rightarrow> server_state \<Rightarrow> response outcome \<times> server_state" where
  "upload_file w req st =
     (let localPath = to_String (arg req ''local_path'');
          remotePath = to_String (arg req ''remote_path'')
      in if localPath = [] \<or> remotePath = []
         then (Rejected ''Local path and remote path are required'', st)
         else
           let (done, st1) = uploadFile w localPath remotePath st
           in (await done (\<lambda>_.
                 ok (txt_file_from @ localPath @ txt_uploaded_to @ remotePath @ txt_success)), st1))"

definition download_file :: "world \<Rightarrow> request \<Rightarrow> server_state \<Rightarrow> response outcome \<times> server_state" where
  "download_file w req st =
     (let remotePath = to_String (arg req ''remote_path'');
          localPath = to_String (arg req ''local_path'')
      in if remotePath = [] \<or> localPath = []
         then (Rejected ''Remote path and local path are required'', st)
         else
           let (done, st1) = downloadFile w remotePath localPath st
           in (await done (\<lambda>_.
                 ok (txt_file_from @ remotePath @ txt_downloaded_to @ localPath @ txt_success)), st1))"

definition list_directory :: "world \<Rightarrow> request \<Rightarrow> server_state \<Rightarrow> response outcome \<times> server_state" where
  "list_directory w req st =
     (let dirPath = to_String (js_or (arg req ''path'') (JStr ''.''));
          detailed = to_Boolean (arg req ''detailed'');
          command = list_directory_command dirPath detailed;
          (result, st1) = executeRemoteCommand w command st
      in (await result (\<lambda>result. ok (txt_directory @ dirPath @ nl @ nl @ stdout result)), st1))"

subsection \<open>The monitor\<close>

definition monitor_commands :: "string \<Rightarrow> string list" where
  "monitor_commands monitorType =
     (if monitorType = ''cpu'' then [''top -bn1 | head -20'']
      else if monitorType = ''memory'' then [''free -h'', ''cat /proc/meminfo | head -10'']
      else if monitorType = ''disk'' then [''df -h'', ''lsblk'']
      else if monitorType = ''network'' then [''netstat -tuln'', ''ss -tuln'']
      else [''uptime'', ''free -h'', ''df -h'', ''top -bn1 | head -10'',
            ''netstat -tuln | head -10''])"

text \<open>
  \<^verbatim>\<open>commands.map(cmd => executeRemoteCommand(cmd))\<close> starts the calls one after the
  other, each running up to its \<^verbatim>\<open>await\<close>, before any of them continues. They
  continue as their connection attempts settle.
\<close>

fun start_all :: "world \<Rightarrow> string list \<Rightarrow> server_state \<Rightarrow> acquisition list \<times> server_state" where
  "start_all w [] st = ([], st)"
| "start_all w (cmd # cmds) st =
     (let (a, st1) = executeRemoteCommand_begin w cmd st;
          (as, st2) = start_all w cmds st1
      in (a # as, st2))"

text \<open>
  \<^verbatim>\<open>Promise.all\<close>: promises settle one at a time, in the order \<open>order\<close> of their
  indices. A fulfilled promise puts its value at its own index, and the result
  resolves with the values once none is missing; the first rejection rejects the result.
  The result of no promises resolves at once.
\<close>

fun all_settle :: "'a outcome list \<Rightarrow> 'a option list \<Rightarrow> nat list \<Rightarrow> 'a list outcome" where
  "all_settle ps values [] = Pending"
| "all_settle ps values (i # order) =
     (if i < length ps then
        (case ps ! i of
           Resolved v \<Rightarrow>
             (let values' = values[i := Some v]
              in if list_all (\<lambda>x. x \<noteq> None) values' then Resolved (map the values')
                 else all_settle ps values' order)
         | Rejected err \<Rightarrow> Rejected err
         | Pending \<Rightarrow> all_settle ps values order
         | Uncaught err \<Rightarrow> Uncaught err)
      else all_settle ps values order)"

definition Promise_all :: "'a outcome list \<Rightarrow> nat list \<Rightarrow> 'a list outcome" where
  "Promise_all ps order =
     (if ps = [] then Resolved [] else all_settle ps (replicate (length ps) None) order)"

fun join :: "string \<Rightarrow> string list \<Rightarrow> string" where
  "join sep [] = []"
| "join sep [x] = x"
| "join sep (x # y # ys) = x @ sep @ join sep (y # ys)"

text \<open>
  \<^verbatim>\<open>results.map((result, index) => `=== ${commands[index]} ===\n${result.stdout}\n`)\<close>
\<close>

definition monitor_block :: "string list \<Rightarrow> exec_result \<times> nat \<Rightarrow> string" where
  "monitor_block commands ri =
     ''=== '' @ (if snd ri < length commands then commands ! snd ri else ''undefined'')
     @ '' ==='' @ nl @ stdout (fst ri) @ nl"

definition monitor_output :: "string list \<Rightarrow> exec_result list \<Rightarrow> string" where
  "monitor_output commands results =
     join nl (map (monitor_block commands) (zip results [0 ..< length results]))"

definition system_monitor :: "world \<Rightarrow> request \<Rightarrow> server_state \<Rightarrow> response outcome \<times> server_state" where
  "system_monitor w req st =
     (let monitorType = to_String (js_or (arg req ''type'') (JStr ''all''));
          commands = monitor_commands monitorType;
          (as, st1) = start_all w commands st;
          promises = map (\<lambda>(cmd, a). executeRemoteCommand_outcome w cmd a) (zip commands as);
          st2 = fold (\<lambda>i s. if i < length as then getSSHConnection_resume w (as ! i) s else s)
                  (ready_order w) st1
      in (await (Promise_all promises (completion_order w)) (\<lambda>results.
            ok (txt_monitor @ monitorType @ ''):'' @ nl @ nl @ monitor_output commands results)),
          st2))"

subsection \<open>The handler of tool calls\<close>

definition tool_body :: "world \<Rightarrow> request \<Rightarrow> server_state \<Rightarrow> response outcome \<times> server_state" where
  "tool_body w req st =
     (if name req = ''execute_command'' then execute_command w req st
      else if name req = ''read_file'' then read_file w req st
      else if name req = ''write_file'' then write_file w req st
      else if name req = ''upload_file'' then upload_file w req st
      else if name req = ''download_file'' then download_file w req st
      else if name req = ''list_directory'' then list_directory w req st
      else if name req = ''system_monitor'' then system_monitor w req st
      else (Rejected (''Unknown tool: '' @ name req), st))"

text \<open>The \<^verbatim>\<open>catch\<close> around the body turns what was thrown or rejected into a response.\<close>

fun catch_error :: "response outcome \<Rightarrow> response outcome" where
  "catch_error (Rejected err) =
     Resolved \<lparr>content_text = txt_error @ error_to_string err, isError = True\<rparr>"
| "catch_error r = r"

definition call_tool :: "world \<Rightarrow> request \<Rightarrow> server_state \<Rightarrow> response outcome \<times> server_state" where
  "call_tool w req st = (let (r, st1) = tool_body w req st in (catch_error r, st1))"

section \<open>Predicates and example inputs for the properties\<close>

fun is_close :: "chan_event \<Rightarrow> bool" where
  "is_close (Close code) = True"
| "is_close _ = False"

definition no_close :: "chan_event list \<Rightarrow> bool" where
  "no_close evs = list_all (\<lambda>e. \<not> is_close e) evs"

text \<open>What the two data listeners have been given by a list of events.\<close>

fun data_of :: "chan_event list \<Rightarrow> string" where
  "data_of [] = []"
| "data_of (Data d # evs) = d @ data_of evs"
| "data_of (_ # evs) = data_of evs"

fun errdata_of :: "chan_event list \<Rightarrow> string" where
  "errdata_of [] = []"
| "errdata_of (ErrData d # evs) = d @ errdata_of evs"
| "errdata_of (_ # evs) = errdata_of evs"

text \<open>
  The invariant of the cache when calls do not overlap: no key has been opened twice,
  and a key that is not in the cache has not been opened.
\<close>

definition cache_covers_opens :: "server_state \<Rightarrow> bool" where
  "cache_covers_opens st \<longleftrightarrow>
     (\<forall>key. opens_for key st \<le> 1 \<and> (connections st key = None \<longrightarrow> opens_for key st = 0))"

definition password_env :: environment where
  "password_env =
     [''SSH_HOST'' \<mapsto> ''h'', ''SSH_USERNAME'' \<mapsto> ''u'', ''SSH_PASSWORD'' \<mapsto> ''p'']"

definition abc_port_env :: environment where
  "abc_port_env = password_env(''SSH_PORT'' \<mapsto> ''abc'')"

text \<open>The value \<^verbatim>\<open>uro\<close> after a euro sign (U+20AC), between two spaces.\<close>

definition euro_value :: string where
  "euro_value = '' '' @ [CHR 0xE2, CHR 0x82, CHR 0xAC] @ ''uro ''"

definition euro_port_env :: environment where
  "euro_port_env = password_env(''SSH_PORT'' \<mapsto> euro_value)"

definition password_and_key_env :: environment where
  "password_and_key_env = password_env(''SSH_PRIVATE_KEY_PATH'' \<mapsto> ''/missing/key'')"

definition no_files :: file_reader where
  "no_files path = Inl (''ENOENT: no such file or directory, open '' @ path)"

text \<open>
  A host that accepts the connection and answers every command, with no file on
  either side of a transfer; of calls started together, the second settles first.
\<close>

definition example_world :: world where
  "example_world =
     \<lparr>env = password_env, readFileSync = no_files,
      connect = (\<lambda>conn config. [Ready]),
      exec = (\<lambda>conn command. Inr [Data (''output of '' @ command), End, Exit 0, Close 0]),
      sftp = (\<lambda>conn. None),
      sftp_readFile = (\<lambda>conn path. Inl ''No such file''),
      upload_stream = (\<lambda>conn localPath remotePath.
         [ReadError (''ENOENT: no such file or directory, open '' @ localPath)]),
      download_stream = (\<lambda>conn remotePath localPath. [ReadError ''No such file'']),
      ready_order = [0, 1, 2, 3, 4],
      completion_order = [1, 0, 4, 3, 2]\<rparr>"

definition unreachable_world :: world where
  "unreachable_world =
     example_world\<lparr>connect := (\<lambda>conn config. [ConnError ''connect ECONNREFUSED''])\<rparr>"

definition never_closing_world :: world where
  "never_closing_world =
     example_world\<lparr>exec := (\<lambda>conn command. Inr [Data ''a'', End, ErrEnd, Exit 0])\<rparr>"

definition memory_request :: request where
  "memory_request =
     \<lparr>name = ''system_monitor'', arguments = Some [''type'' \<mapsto> JStr ''memory'']\<rparr>"

definition unknown_type_request :: request where
  "unknown_type_request =
     \<lparr>name = ''system_monitor'', arguments = Some [''type'' \<mapsto> JStr ''gpu'']\<rparr>"

text \<open>A call of \<^verbatim>\<open>execute_command\<close> whose arguments hold no \<^verbatim>\<open>command\<close>.\<close>

definition no_command_request :: request where
  "no_command_request = \<lparr>name = ''execute_command'', arguments = Some Map.empty\<rparr>"

definition empty_command_request :: request where
  "empty_command_request =
     \<lparr>name = ''execute_command'', arguments = Some [''command'' \<mapsto> JStr []]\<rparr>"

definition upload_request :: request where
  "upload_request =
     \<lparr>name = ''upload_file'',
      arguments = Some [''local_path'' \<mapsto> JStr ''/no/such/file'',
                        ''remote_path'' \<mapsto> JStr ''/tmp/x'']\<rparr>"

definition read_request :: request where
  "read_request =
     \<lparr>name = ''read_file'', arguments = Some [''path'' \<mapsto> JStr ''/no/such/file'']\<rparr>"

text \<open>The content \<^verbatim>\<open>a"b$(whoami)\<close>.\<close>

definition injection_content :: string where
  "injection_content = ''a'' @ [CHR 0x22] @ ''b$(whoami)''"

definition write_request :: request where
  "write_request =
     \<lparr>name = ''write_file'',
      arguments = Some [''path'' \<mapsto> JStr ''/tmp/x'',
                        ''content'' \<mapsto> JStr injection_content]\<rparr>"

text \<open>The command list of the monitor type \<^verbatim>\<open>all\<close>, which is also the default case.\<close>

definition all_commands :: "string list" where
  "all_commands = [''uptime'', ''free -h'', ''df -h'', ''top -bn1 | head -10'',
                   ''netstat -tuln | head -10'']"

text \<open>What the host of \<open>example_world\<close> answers to a command.\<close>

definition output_of :: "string \<Rightarrow> exec_result" where
  "output_of command = \<lparr>stdout = ''output of '' @ command, stderr = [], exitCode = 0\<rparr>"

section \<open>Properties of the credential resolver\<close>

lemma parseInt_22: "parseInt ''22'' = Num 22"
  by code_simp

lemma digit_val_10_zero: "digit_val 10 c = None \<Longrightarrow> c \<noteq> CHR ''0''"
  by (auto simp: digit_val_def)

lemma parseInt_no_digit:
  assumes "trim_start v = c # t"
    and "c \<noteq> CHR ''+''" "c \<noteq> CHR ''-''" "digit_val 10 c = None"
  shows "parseInt v = NaN"
proof -
  have z: "c \<noteq> CHR ''0''" using assms(4) by (rule digit_val_10_zero)
  show ?thesis
    unfolding parseInt_def assms(1)
    using assms(2,3,4) z by (simp add: Let_def)
qed

lemma parseInt_non_numeric: "starts_non_numeric v \<Longrightarrow> parseInt v = NaN"
  by (cases "trim_start v") (auto simp: starts_non_numeric_def intro: parseInt_no_digit)

lemma non_numeric_not_empty: "starts_non_numeric v \<Longrightarrow> v \<noteq> []"
  by (auto simp: starts_non_numeric_def)

text \<open>
  A value that begins with a character that is neither white space, a sign nor a decimal
  digit is such a value, whatever the character is.
\<close>

lemma untrimmed_non_numeric:
  assumes "trim_start (c # t) = c # t"
    and "c \<noteq> CHR ''+''" "c \<noteq> CHR ''-''" "digit_val 10 c = None"
  shows "starts_non_numeric (c # t)"
  using assms by (simp add: starts_non_numeric_def)

lemma port_of_config:
  assumes "getSSHConfig vars rd = Inr cfg"
  shows "port cfg = parseInt (if falsy (vars ''SSH_PORT'') then ''22'' else the (vars ''SSH_PORT''))"
  using assms
  by (auto simp: getSSHConfig_def Let_def split: if_splits sum.splits)

text \<open>
  C4, as the specification states it, fails: with \<^verbatim>\<open>SSH_PORT=abc\<close> the resolver returns a
  descriptor whose port is NaN, which is no port number.
\<close>

theorem port_counterexample:
  "starts_non_numeric ''abc'' \<and>
   getSSHConfig abc_port_env no_files =
     Inr \<lparr>host = ''h'', port = NaN, username = ''u'', password = Some ''p'',
          privateKey = None, passphrase = None\<rparr> \<and>
   \<not> valid_port NaN"
  by code_simp

text \<open>
  C4 (amended): the port of the descriptor is 22 whenever \<^verbatim>\<open>SSH_PORT\<close> is unset or empty;
  a value whose first character after any leading white space is neither a sign nor a
  decimal digit (\<^verbatim>\<open>abc\<close>, a value that begins with a euro sign, \<^verbatim>\<open> port\<close>) gives the
  port NaN: there is no fallback for a non-numeric value.
\<close>

theorem getSSHConfig_port:
  assumes "getSSHConfig vars rd = Inr config"
  shows "(falsy (vars ''SSH_PORT'') \<longrightarrow> port config = Num 22) \<and>
         (\<forall>v. vars ''SSH_PORT'' = Some v \<and> starts_non_numeric v \<longrightarrow> port config = NaN)"
proof (intro conjI allI impI)
  assume "falsy (vars ''SSH_PORT'')"
  then show "port config = Num 22"
    using port_of_config [OF assms] by (simp add: parseInt_22)
next
  fix v assume v: "vars ''SSH_PORT'' = Some v \<and> starts_non_numeric v"
  then have "v \<noteq> []" by (simp add: non_numeric_not_empty)
  with v have "\<not> falsy (vars ''SSH_PORT'')" by (simp add: falsy_def)
  with v show "port config = NaN"
    using port_of_config [OF assms] by (simp add: parseInt_non_numeric)
qed

theorem getSSHConfig_port_witness:
  "falsy (password_env ''SSH_PORT'') \<and>
   port (projr (getSSHConfig password_env no_files)) = Num 22 \<and>
   abc_port_env ''SSH_PORT'' = Some ''abc'' \<and> starts_non_numeric ''abc'' \<and>
   port (projr (getSSHConfig abc_port_env no_files)) = NaN \<and>
   euro_port_env ''SSH_PORT'' = Some euro_value \<and> starts_non_numeric euro_value \<and>
   port (projr (getSSHConfig euro_port_env no_files)) = NaN"
proof -
  have a: "getSSHConfig password_env no_files = Inr (projr (getSSHConfig password_env no_files))"
    by code_simp
  have b: "getSSHConfig abc_port_env no_files = Inr (projr (getSSHConfig abc_port_env no_files))"
    by code_simp
  have c: "getSSHConfig euro_port_env no_files = Inr (projr (getSSHConfig euro_port_env no_files))"
    by code_simp
  have f: "falsy (password_env ''SSH_PORT'')" by code_simp
  have v: "abc_port_env ''SSH_PORT'' = Some ''abc'' \<and> starts_non_numeric ''abc''" by code_simp
  have e: "euro_port_env ''SSH_PORT'' = Some euro_value \<and> starts_non_numeric euro_value"
    by code_simp
  show ?thesis
    using getSSHConfig_port [OF a] getSSHConfig_port [OF b] getSSHConfig_port [OF c] f v e
    by blast
qed

text \<open>
  C9, as the specification states it, fails: with a password and the path of a key file
  that cannot be read, the resolver does not fail, since it does not read the key file
  when a password is there.
\<close>

theorem resolver_counterexample:
  "\<not> (isl (getSSHConfig password_and_key_env no_files) \<longleftrightarrow>
        password_and_key_env ''SSH_HOST'' = None \<or> password_and_key_env ''SSH_USERNAME'' = None \<or>
        (password_and_key_env ''SSH_PASSWORD'' = None \<and>
         password_and_key_env ''SSH_PRIVATE_KEY_PATH'' = None) \<or>
        isl (no_files (the (password_and_key_env ''SSH_PRIVATE_KEY_PATH''))))"
  by code_simp

text \<open>
  C9 (amended): the resolver fails exactly when the host or the user name is absent or
  empty, or when no password (absent or empty) is supplied and the private-key path is
  absent or empty or its file cannot be read. Otherwise it returns a descriptor with
  the supplied host and user name, the port parsed from \<^verbatim>\<open>SSH_PORT\<close> (from \<^verbatim>\<open>22\<close> when
  that is unset or empty), and either the password alone or, without a password, the
  text of the key file with the passphrase if one is supplied.
\<close>

theorem getSSHConfig_result:
  "(isl (getSSHConfig vars rd) \<longleftrightarrow>
      falsy (vars ''SSH_HOST'') \<or> falsy (vars ''SSH_USERNAME'') \<or>
      (falsy (vars ''SSH_PASSWORD'') \<and>
       (falsy (vars ''SSH_PRIVATE_KEY_PATH'') \<or> isl (rd (the (vars ''SSH_PRIVATE_KEY_PATH'')))))) \<and>
   (\<forall>config. getSSHConfig vars rd = Inr config \<longrightarrow>
      host config = the (vars ''SSH_HOST'') \<and>
      username config = the (vars ''SSH_USERNAME'') \<and>
      port config =
        parseInt (if falsy (vars ''SSH_PORT'') then ''22'' else the (vars ''SSH_PORT'')) \<and>
      (if \<not> falsy (vars ''SSH_PASSWORD'')
       then password config = vars ''SSH_PASSWORD'' \<and> privateKey config = None \<and>
            passphrase config = None
       else password config = None \<and>
            (\<exists>key. rd (the (vars ''SSH_PRIVATE_KEY_PATH'')) = Inr key \<and>
                   privateKey config = Some key) \<and>
            passphrase config =
              (if falsy (vars ''SSH_PASSPHRASE'') then None else vars ''SSH_PASSPHRASE'')))"
  by (auto simp: getSSHConfig_def Let_def split: if_splits sum.splits)

theorem getSSHConfig_result_witness:
  "getSSHConfig password_env no_files =
     Inr \<lparr>host = ''h'', port = Num 22, username = ''u'', password = Some ''p'',
          privateKey = None, passphrase = None\<rparr> \<and>
   host (projr (getSSHConfig password_env no_files)) = the (password_env ''SSH_HOST'') \<and>
   password (projr (getSSHConfig password_env no_files)) = Some ''p''"
proof -
  have a: "getSSHConfig password_env no_files =
     Inr \<lparr>host = ''h'', port = Num 22, username = ''u'', password = Some ''p'',
          privateKey = None, passphrase = None\<rparr>"
    by code_simp
  have p: "\<not> falsy (password_env ''SSH_PASSWORD'')" "password_env ''SSH_PASSWORD'' = Some ''p''"
    by code_simp+
  from getSSHConfig_result [of password_env no_files] a p show ?thesis
    by simp
qed

section \<open>Properties of command execution\<close>

lemma channel_run_no_close:
  "no_close evs \<Longrightarrow> channel_run out err evs = Pending"
  by (induction out err evs rule: channel_run.induct) (simp_all add: no_close_def)

lemma channel_run_close:
  "no_close pre \<Longrightarrow>
   channel_run out err (pre @ Close code # post) =
     Resolved \<lparr>stdout = out @ data_of pre, stderr = err @ errdata_of pre, exitCode = code\<rparr>"
  by (induction out err pre rule: channel_run.induct) (simp_all add: no_close_def)

text \<open>
  C5: on a session it has obtained and a channel that has opened,
  \<^verbatim>\<open>executeRemoteCommand\<close> stays unresolved as long as the channel has delivered no
  \<^verbatim>\<open>close\<close> event, whatever else it has delivered (the ends of the streams, the exit
  status); at the first \<^verbatim>\<open>close\<close> event it resolves, with the exit code that event
  carries and with the standard output and standard error text gathered until then.
\<close>

theorem executeRemoteCommand_resolves_at_close:
  assumes "getSSHConnection_outcome w a = Resolved conn"
    and "exec w conn command = Inr events"
  shows "(no_close events \<longrightarrow> executeRemoteCommand_outcome w command a = Pending) \<and>
         (\<forall>pre code post. events = pre @ Close code # post \<and> no_close pre \<longrightarrow>
            executeRemoteCommand_outcome w command a =
              Resolved \<lparr>stdout = data_of pre, stderr = errdata_of pre, exitCode = code\<rparr>)"
  using assms
  by (auto simp: executeRemoteCommand_outcome_def conn_exec_def channel_run_no_close
        channel_run_close)

theorem executeRemoteCommand_resolves_at_close_witness:
  "executeRemoteCommand_outcome example_world ''id'' (Cached 0) =
     Resolved \<lparr>stdout = ''output of id'', stderr = [], exitCode = 0\<rparr> \<and>
   executeRemoteCommand_outcome never_closing_world ''id'' (Cached 0) = Pending"
proof -
  have a: "getSSHConnection_outcome example_world (Cached 0) = Resolved 0" by simp
  have b: "exec example_world 0 ''id'' = Inr ([Data ''output of id'', End, Exit 0] @ Close 0 # [])"
    by (simp add: example_world_def)
  have c: "no_close [Data ''output of id'', End, Exit 0]" by (simp add: no_close_def)
  have a': "getSSHConnection_outcome never_closing_world (Cached 0) = Resolved 0" by simp
  have b': "exec never_closing_world 0 ''id'' = Inr [Data ''a'', End, ErrEnd, Exit 0]"
    by (simp add: never_closing_world_def)
  have c': "no_close [Data ''a'', End, ErrEnd, Exit 0]" by (simp add: no_close_def)
  from executeRemoteCommand_resolves_at_close [OF a b, THEN conjunct2, rule_format,
         of "[Data ''output of id'', End, Exit 0]" 0 "[]"] c
       executeRemoteCommand_resolves_at_close [OF a' b', THEN conjunct1] c'
  show ?thesis by simp
qed

section \<open>Properties of the session cache\<close>

lemma begin_miss:
  assumes "getSSHConfig (env w) (readFileSync w) = Inr config"
    and "connections st (connectionKey config) = None"
  shows "getSSHConnection_begin w st =
           (Opening (connectionKey config) (length (opened st)) config,
            st\<lparr>opened := opened st @ [config]\<rparr>)"
  using assms by (simp add: getSSHConnection_begin_def Let_def)

lemma begin_cases:
  assumes "fst (getSSHConnection_begin w st) = Opening key conn config"
  shows "getSSHConfig (env w) (readFileSync w) = Inr config" and "key = connectionKey config"
    and "connections st key = None" and "conn = length (opened st)"
  using assms
  by (auto simp: getSSHConnection_begin_def Let_def split: sum.splits option.splits)

text \<open>
  C7: when \<^verbatim>\<open>getSSHConnection\<close> misses the cache, invokes the factory and the factory
  rejects, the call rejects with the factory's error and the cache is as it was: it has
  no entry for the key. The next call for the key therefore misses the cache again and
  invokes the factory again. Whatever else has happened meanwhile, the continuation of
  the failed call changes nothing in the state.
\<close>

theorem failed_open_stores_nothing:
  assumes "fst (getSSHConnection_begin w st) = Opening key conn config"
    and "createSSHConnection w conn config = Rejected err"
  shows "fst (getSSHConnection w st) = Rejected err \<and>
         connections (snd (getSSHConnection w st)) = connections st \<and>
         connections (snd (getSSHConnection w st)) key = None \<and>
         fst (getSSHConnection_begin w (snd (getSSHConnection w st))) =
           Opening key (Suc conn) config \<and>
         opened (snd (getSSHConnection_begin w (snd (getSSHConnection w st)))) =
           opened st @ [config, config] \<and>
         (\<forall>st'. getSSHConnection_resume w (Opening key conn config) st' = st')"
proof -
  note b = begin_cases [OF assms(1)]
  have miss: "connections st (connectionKey config) = None"
    using b(2,3) by simp
  note first = begin_miss [OF b(1) miss]
  have st1: "getSSHConnection w st = (Rejected err, st\<lparr>opened := opened st @ [config]\<rparr>)"
    using first assms(2) b(4) by (simp add: getSSHConnection_def)
  have "connections (st\<lparr>opened := opened st @ [config]\<rparr>) (connectionKey config) = None"
    using miss by simp
  note again = begin_miss [OF b(1) this]
  have "getSSHConnection_resume w (Opening key conn config) st' = st'" for st'
    using assms(2) by simp
  then show ?thesis
    using st1 again miss b(2,4) by simp
qed

theorem failed_open_stores_nothing_witness:
  "fst (getSSHConnection unreachable_world initial_state) = Rejected ''connect ECONNREFUSED'' \<and>
   connections (snd (getSSHConnection unreachable_world initial_state)) ''h:22:u'' = None \<and>
   length (opened (snd (getSSHConnection_begin unreachable_world
      (snd (getSSHConnection unreachable_world initial_state))))) = 2"
proof -
  let ?c = "projr (getSSHConfig password_env no_files)"
  have a: "fst (getSSHConnection_begin unreachable_world initial_state) = Opening ''h:22:u'' 0 ?c"
    by code_simp
  have b: "createSSHConnection unreachable_world 0 ?c = Rejected ''connect ECONNREFUSED''"
    by code_simp
  have c: "opened initial_state = []"
    by (simp add: initial_state_def)
  from failed_open_stores_nothing [OF a b] c show ?thesis
    by (simp add: initial_state_def)
qed

lemma getSSHConnection_keeps_cover:
  assumes "cache_covers_opens st"
    and "\<forall>conn config. createSSHConnection w conn config = Resolved conn"
  shows "cache_covers_opens (snd (getSSHConnection w st))"
proof (cases "getSSHConfig (env w) (readFileSync w)")
  case (Inl err)
  then show ?thesis using assms(1)
    by (simp add: getSSHConnection_def getSSHConnection_begin_def)
next
  case (Inr config)
  show ?thesis
  proof (cases "connections st (connectionKey config)")
    case (Some conn)
    with Inr show ?thesis using assms(1)
      by (simp add: getSSHConnection_def getSSHConnection_begin_def)
  next
    case None
    have "snd (getSSHConnection w st) =
            st\<lparr>opened := opened st @ [config],
               connections := (connections st)(connectionKey config \<mapsto> length (opened st))\<rparr>"
      using begin_miss [OF Inr None] assms(2) by (simp add: getSSHConnection_def)
    moreover have "opens_for (connectionKey config) st = 0"
      using assms(1) None by (simp add: cache_covers_opens_def)
    ultimately show ?thesis using assms(1)
      by (auto simp: cache_covers_opens_def opens_for_def)
  qed
qed

lemma acquire_in_turn_keeps_cover:
  assumes "\<forall>w \<in> set ws. \<forall>conn config. createSSHConnection w conn config = Resolved conn"
    and "cache_covers_opens st"
  shows "cache_covers_opens (acquire_in_turn ws st)"
  using assms
  by (induction ws arbitrary: st) (simp_all add: getSSHConnection_keeps_cover)

text \<open>
  C2, as the specification states it, fails: nothing serializes calls that are in flight
  together. Two calls of \<^verbatim>\<open>getSSHConnection\<close> that both reach the look-up before either
  connection is ready invoke the factory twice for the one key, and a single
  \<^verbatim>\<open>system_monitor\<close> request on a fresh process, which starts its five commands
  together, invokes it five times.
\<close>

theorem overlapping_calls_open_twice:
  "opens_for ''h:22:u''
     (snd (getSSHConnection_begin example_world
        (snd (getSSHConnection_begin example_world initial_state)))) = 2 \<and>
   opens_for ''h:22:u''
     (snd (call_tool example_world \<lparr>name = ''system_monitor'', arguments = None\<rparr>
        initial_state)) = 5"
  by code_simp

text \<open>
  C2 (amended): when the calls of \<^verbatim>\<open>getSSHConnection\<close> do not overlap (each one
  completes before the next one starts) and every connection attempt succeeds, the
  factory is invoked at most once for each key, however many calls there are and
  whatever keys they target.
\<close>

theorem one_open_per_key_in_turn:
  assumes "\<forall>w \<in> set ws. \<forall>conn config. createSSHConnection w conn config = Resolved conn"
  shows "opens_for key (acquire_in_turn ws initial_state) \<le> 1"
proof -
  have "cache_covers_opens initial_state"
    by (simp add: cache_covers_opens_def initial_state_def opens_for_def)
  from acquire_in_turn_keeps_cover [OF assms this] show ?thesis
    by (simp add: cache_covers_opens_def)
qed

theorem one_open_per_key_in_turn_witness:
  "opens_for ''h:22:u''
     (acquire_in_turn [example_world, example_world, example_world] initial_state) = 1"
proof -
  have r: "\<forall>w \<in> set [example_world, example_world, example_world].
             \<forall>conn config. createSSHConnection w conn config = Resolved conn"
    by (simp add: example_world_def createSSHConnection_def)
  have "0 < opens_for ''h:22:u''
              (acquire_in_turn [example_world, example_world, example_world] initial_state)"
    by code_simp
  with one_open_per_key_in_turn [OF r, of "''h:22:u''"] show ?thesis
    by simp
qed

section \<open>Properties of the monitor\<close>

lemma all_settle_skip:
  "\<not> i < length ps \<Longrightarrow> all_settle ps vals (i # order) = all_settle ps vals order"
  by simp

lemma all_settle_resolved_step:
  "i < length rs \<Longrightarrow>
   all_settle (map Resolved rs) vals (i # order) =
     (if list_all (\<lambda>x. x \<noteq> None) (vals[i := Some (rs ! i)])
      then Resolved (map the (vals[i := Some (rs ! i)]))
      else all_settle (map Resolved rs) (vals[i := Some (rs ! i)]) order)"
  by (simp add: Let_def del: all_settle.simps add: all_settle.simps(2))

lemma all_settle_resolved:
  assumes "length vals = length rs"
    and "\<forall>j < length rs. vals ! j = None \<or> vals ! j = Some (rs ! j)"
    and "\<forall>j < length rs. vals ! j = None \<longrightarrow> j \<in> set order"
    and "\<exists>j < length rs. vals ! j = None"
  shows "all_settle (map Resolved rs) vals order = Resolved rs"
  using assms
proof (induction order arbitrary: vals)
  case Nil
  from Nil(3,4) show ?case by auto
next
  case (Cons i order)
  show ?case
  proof (cases "i < length rs")
    case False
    have rest: "\<forall>j < length rs. vals ! j = None \<longrightarrow> j \<in> set order"
    proof (intro allI impI)
      fix j assume j: "j < length rs" and none: "vals ! j = None"
      with Cons.prems(3) have "j \<in> set (i # order)" by blast
      moreover have "j \<noteq> i" using j False by blast
      ultimately show "j \<in> set order" by simp
    qed
    have "all_settle (map Resolved rs) vals (i # order) = all_settle (map Resolved rs) vals order"
      using False by (intro all_settle_skip) simp
    also have "\<dots> = Resolved rs"
      by (rule Cons.IH [OF Cons.prems(1,2) rest Cons.prems(4)])
    finally show ?thesis .
  next
    case True
    let ?v = "vals[i := Some (rs ! i)]"
    have len: "length ?v = length rs" using Cons.prems(1) by simp
    have vals: "\<forall>j < length rs. ?v ! j = None \<or> ?v ! j = Some (rs ! j)"
    proof (intro allI impI)
      fix j assume j: "j < length rs"
      show "?v ! j = None \<or> ?v ! j = Some (rs ! j)"
      proof (cases "j = i")
        case True
        then show ?thesis using j Cons.prems(1) by simp
      next
        case False
        then show ?thesis using j Cons.prems(2) by simp
      qed
    qed
    note step = all_settle_resolved_step [OF True, of vals order]
    show ?thesis
    proof (cases "list_all (\<lambda>x. x \<noteq> None) ?v")
      case full: True
      have "\<forall>j < length rs. ?v ! j = Some (rs ! j)"
      proof (intro allI impI)
        fix j assume j: "j < length rs"
        have "j < length ?v" using j len by (simp only:)
        with full [unfolded list_all_length] have "?v ! j \<noteq> None" by blast
        moreover from vals j have "?v ! j = None \<or> ?v ! j = Some (rs ! j)" by blast
        ultimately show "?v ! j = Some (rs ! j)" by fastforce
      qed
      then have "map the ?v = rs"
        using len by (intro nth_equalityI) simp_all
      with step full show ?thesis by (simp only: if_True)
    next
      case notfull: False
      have rest: "\<forall>j < length rs. ?v ! j = None \<longrightarrow> j \<in> set order"
      proof (intro allI impI)
        fix j assume j: "j < length rs" and none: "?v ! j = None"
        have "j \<noteq> i" using none j Cons.prems(1) by auto
        with none have "vals ! j = None" by simp
        with Cons.prems(3) j have "j \<in> set (i # order)" by blast
        with \<open>j \<noteq> i\<close> show "j \<in> set order" by simp
      qed
      have ex: "\<exists>j < length rs. ?v ! j = None"
      proof -
        from notfull obtain j where "j < length ?v" "\<not> ?v ! j \<noteq> None"
          unfolding list_all_length by blast
        with len show ?thesis by auto
      qed
      from step notfull have "all_settle (map Resolved rs) vals (i # order) =
          all_settle (map Resolved rs) ?v order"
        by (simp only: if_False)
      also have "\<dots> = Resolved rs"
        by (rule Cons.IH [OF len vals rest ex])
      finally show ?thesis .
    qed
  qed
qed

lemma Promise_all_resolved:
  assumes "\<forall>j < length rs. j \<in> set order"
  shows "Promise_all (map Resolved rs) order = Resolved rs"
proof (cases "rs = []")
  case True
  then show ?thesis by (simp add: Promise_all_def)
next
  case False
  have a: "length (replicate (length rs) (None :: 'a option)) = length rs" by simp
  have b: "\<forall>j < length rs. replicate (length rs) (None :: 'a option) ! j = None \<or>
             replicate (length rs) None ! j = Some (rs ! j)" by simp
  have c: "\<forall>j < length rs. replicate (length rs) (None :: 'a option) ! j = None \<longrightarrow> j \<in> set order"
    using assms by blast
  have d: "\<exists>j < length rs. replicate (length rs) (None :: 'a option) ! j = None"
    using False by (intro exI [of _ 0]) simp
  from all_settle_resolved [OF a b c d] False show ?thesis
    by (simp add: Promise_all_def)
qed

lemma begin_calls: "calls (snd (getSSHConnection_begin w st)) = calls st"
  by (simp add: getSSHConnection_begin_def Let_def split: sum.splits option.splits)

lemma resume_calls: "calls (getSSHConnection_resume w a st) = calls st"
  by (cases a) (simp_all split: outcome.splits)

lemma start_all_length: "length (fst (start_all w cmds st)) = length cmds"
  by (induction cmds arbitrary: st) (simp_all add: split_beta Let_def)

lemma start_all_calls:
  "calls (snd (start_all w cmds st)) = calls st @ map ExecuteRemoteCommand cmds"
  by (induction cmds arbitrary: st)
     (simp_all add: split_beta Let_def executeRemoteCommand_begin_def begin_calls)

lemma fold_resume_calls:
  "calls (fold (\<lambda>i s. if i < n then getSSHConnection_resume w (as ! i) s else s) order st) = calls st"
  by (induction order arbitrary: st) (simp_all add: resume_calls)

lemma system_monitor_calls:
  "calls (snd (system_monitor w req st)) =
     calls st @ map ExecuteRemoteCommand
       (monitor_commands (to_String (js_or (arg req ''type'') (JStr ''all''))))"
  by (simp add: system_monitor_def Let_def split_beta fold_resume_calls start_all_calls)


lemma monitor_output_zip:
  assumes "length results = length commands"
  shows "monitor_output commands results =
           join nl (map (\<lambda>(cmd, r). ''=== '' @ cmd @ '' ==='' @ nl @ stdout r @ nl)
             (zip commands results))"
proof -
  have "map (monitor_block commands) (zip results [0 ..< length results]) =
        map (\<lambda>(cmd, r). ''=== '' @ cmd @ '' ==='' @ nl @ stdout r @ nl) (zip commands results)"
    using assms by (auto intro!: nth_equalityI simp: monitor_block_def)
  then show ?thesis by (simp add: monitor_output_def)
qed

lemma begin_ignores_order:
  "getSSHConnection_begin (w\<lparr>completion_order := order\<rparr>) st = getSSHConnection_begin w st"
  by (simp add: getSSHConnection_begin_def)

lemma start_all_ignores_order:
  "start_all (w\<lparr>completion_order := order\<rparr>) cmds st = start_all w cmds st"
  by (induction cmds arbitrary: st)
     (simp_all add: executeRemoteCommand_begin_def begin_ignores_order)

lemma outcome_ignores_order:
  "executeRemoteCommand_outcome (w\<lparr>completion_order := order\<rparr>) cmd a =
   executeRemoteCommand_outcome w cmd a"
  by (cases a) (simp_all add: executeRemoteCommand_outcome_def createSSHConnection_def conn_exec_def)

lemma system_monitor_resolved:
  assumes "monitorType = to_String (js_or (arg req ''type'') (JStr ''all''))"
    and "commands = monitor_commands monitorType"
    and "map (\<lambda>(cmd, a). executeRemoteCommand_outcome w cmd a)
           (zip commands (fst (start_all w commands st))) = map Resolved results"
    and "\<forall>j < length commands. j \<in> set order"
  shows "fst (system_monitor (w\<lparr>completion_order := order\<rparr>) req st) =
           ok (txt_monitor @ monitorType @ ''):'' @ nl @ nl @
               join nl (map (\<lambda>(cmd, r). ''=== '' @ cmd @ '' ==='' @ nl @ stdout r @ nl)
                 (zip commands results)))"
proof -
  have "length (map (\<lambda>(cmd, a). executeRemoteCommand_outcome w cmd a)
           (zip commands (fst (start_all w commands st)))) = length commands"
    by (simp add: start_all_length)
  with assms(3) have len: "length results = length commands" by simp
  have all: "Promise_all (map Resolved results) order = Resolved results"
    using assms(4) len by (simp add: Promise_all_resolved)
  show ?thesis
    using assms(1,2,3) all monitor_output_zip [OF len]
    by (simp add: system_monitor_def Let_def split_beta start_all_ignores_order
          outcome_ignores_order)
qed

text \<open>
  C6: for every monitor type, \<^verbatim>\<open>system_monitor\<close> starts the commands of the type's fixed
  list together, in the order of the list. When every one of them resolves, the
  response is the header followed by the outputs in the order of the list, each under
  the command that produced it, whatever the order \<open>order\<close> in which the commands have
  completed. The list of the type \<^verbatim>\<open>memory\<close> is \<^verbatim>\<open>free -h\<close> and
  \<^verbatim>\<open>cat /proc/meminfo | head -10\<close>.
\<close>

theorem monitor_output_in_command_order:
  assumes "monitorType = to_String (js_or (arg req ''type'') (JStr ''all''))"
    and "commands = monitor_commands monitorType"
    and "map (\<lambda>(cmd, a). executeRemoteCommand_outcome w cmd a)
           (zip commands (fst (start_all w commands st))) = map Resolved results"
    and "\<forall>j < length commands. j \<in> set order"
  shows "fst (system_monitor (w\<lparr>completion_order := order\<rparr>) req st) =
           ok (txt_monitor @ monitorType @ ''):'' @ nl @ nl @
               join nl (map (\<lambda>(cmd, r). ''=== '' @ cmd @ '' ==='' @ nl @ stdout r @ nl)
                 (zip commands results))) \<and>
         calls (snd (system_monitor (w\<lparr>completion_order := order\<rparr>) req st)) =
           calls st @ map ExecuteRemoteCommand commands \<and>
         monitor_commands ''memory'' = [''free -h'', ''cat /proc/meminfo | head -10'']"
proof (intro conjI)
  show "fst (system_monitor (w\<lparr>completion_order := order\<rparr>) req st) =
           ok (txt_monitor @ monitorType @ ''):'' @ nl @ nl @
               join nl (map (\<lambda>(cmd, r). ''=== '' @ cmd @ '' ==='' @ nl @ stdout r @ nl)
                 (zip commands results)))"
    by (rule system_monitor_resolved [OF assms])
  show "calls (snd (system_monitor (w\<lparr>completion_order := order\<rparr>) req st)) =
           calls st @ map ExecuteRemoteCommand commands"
    using assms(1,2) by (simp add: system_monitor_calls)
  show "monitor_commands ''memory'' = [''free -h'', ''cat /proc/meminfo | head -10'']"
    by (simp add: monitor_commands_def)
qed

theorem monitor_output_in_command_order_witness:
  "fst (system_monitor (example_world\<lparr>completion_order := [1, 0]\<rparr>) memory_request initial_state) =
     ok (txt_monitor @ ''memory):'' @ nl @ nl @
         ''=== free -h ==='' @ nl @ ''output of free -h'' @ nl @ nl @
         ''=== cat /proc/meminfo | head -10 ==='' @ nl @
         ''output of cat /proc/meminfo | head -10'' @ nl) \<and>
   calls (snd (system_monitor (example_world\<lparr>completion_order := [1, 0]\<rparr>) memory_request
      initial_state)) =
     [ExecuteRemoteCommand ''free -h'', ExecuteRemoteCommand ''cat /proc/meminfo | head -10'']"
proof -
  let ?cmds = "[''free -h'', ''cat /proc/meminfo | head -10'']"
  have t: "''memory'' = to_String (js_or (arg memory_request ''type'') (JStr ''all''))"
    by (simp add: memory_request_def arg_def js_or_def)
  have c: "?cmds = monitor_commands ''memory''"
    by (simp add: monitor_commands_def)
  have r: "map (\<lambda>(cmd, a). executeRemoteCommand_outcome example_world cmd a)
             (zip ?cmds (fst (start_all example_world ?cmds initial_state))) =
           map Resolved (map output_of ?cmds)"
    by code_simp
  have o: "\<forall>j < length ?cmds. j \<in> set [1, 0 :: nat]"
    by (simp add: less_Suc_eq)
  from monitor_output_in_command_order [OF t c r o] show ?thesis
    by (simp add: output_of_def initial_state_def)
qed

text \<open>
  C10: a monitor type that is a string other than \<^verbatim>\<open>cpu\<close>, \<^verbatim>\<open>memory\<close>, \<^verbatim>\<open>disk\<close> and
  \<^verbatim>\<open>network\<close> is not refused: the handler starts the five commands of the list of
  \<^verbatim>\<open>all\<close> and, when they resolve, returns a response that is no error with their outputs
  in the order of the list, each under its command. The header names the type as it was
  given (\<^verbatim>\<open>all\<close> for the empty string).
\<close>

theorem unknown_monitor_type_runs_all:
  assumes "name req = ''system_monitor''"
    and "arg req ''type'' = JStr t"
    and "t \<notin> {''cpu'', ''memory'', ''disk'', ''network''}"
    and "map (\<lambda>(cmd, a). executeRemoteCommand_outcome w cmd a)
           (zip all_commands (fst (start_all w all_commands st))) = map Resolved results"
    and "\<forall>j < 5. j \<in> set (completion_order w)"
  shows "fst (call_tool w req st) =
           ok (txt_monitor @ (if t = [] then ''all'' else t) @ ''):'' @ nl @ nl @
               join nl (map (\<lambda>(cmd, r). ''=== '' @ cmd @ '' ==='' @ nl @ stdout r @ nl)
                 (zip all_commands results))) \<and>
         calls (snd (call_tool w req st)) = calls st @ map ExecuteRemoteCommand all_commands"
proof -
  let ?t = "if t = [] then ''all'' else t"
  have ty: "?t = to_String (js_or (arg req ''type'') (JStr ''all''))"
    using assms(2) by (simp add: js_or_def)
  have cmds: "all_commands = monitor_commands ?t"
    using assms(3) by (simp add: monitor_commands_def all_commands_def)
  have ord: "\<forall>j < length all_commands. j \<in> set (completion_order w)"
    using assms(5) by (simp add: all_commands_def)
  have body: "tool_body w req st = system_monitor w req st"
    using assms(1) by (simp add: tool_body_def)
  have w: "w\<lparr>completion_order := completion_order w\<rparr> = w" by simp
  have "fst (system_monitor w req st) =
           ok (txt_monitor @ ?t @ ''):'' @ nl @ nl @
               join nl (map (\<lambda>(cmd, r). ''=== '' @ cmd @ '' ==='' @ nl @ stdout r @ nl)
                 (zip all_commands results)))"
    using system_monitor_resolved [OF ty cmds assms(4) ord] by (simp only: w)
  moreover have "calls (snd (system_monitor w req st)) =
      calls st @ map ExecuteRemoteCommand all_commands"
    using ty cmds by (simp add: system_monitor_calls)
  ultimately show ?thesis
    by (simp add: call_tool_def body split_beta ok_def)
qed

theorem unknown_monitor_type_runs_all_witness:
  "fst (call_tool example_world unknown_type_request initial_state) =
     ok (txt_monitor @ ''gpu):'' @ nl @ nl @
         join nl (map (\<lambda>cmd. ''=== '' @ cmd @ '' ==='' @ nl @ ''output of '' @ cmd @ nl)
           all_commands)) \<and>
   calls (snd (call_tool example_world unknown_type_request initial_state)) =
     map ExecuteRemoteCommand all_commands"
proof -
  have n: "name unknown_type_request = ''system_monitor''"
    by (simp add: unknown_type_request_def)
  have a: "arg unknown_type_request ''type'' = JStr ''gpu''"
    by (simp add: unknown_type_request_def arg_def)
  have t: "''gpu'' \<notin> {''cpu'', ''memory'', ''disk'', ''network''}"
    by simp
  have r: "map (\<lambda>(cmd, a). executeRemoteCommand_outcome example_world cmd a)
             (zip all_commands (fst (start_all example_world all_commands initial_state))) =
           map Resolved (map output_of all_commands)"
    by code_simp
  have o: "\<forall>j < 5. j \<in> set (completion_order example_world)"
    by (simp add: example_world_def less_Suc_eq numeral_eq_Suc)
  from unknown_monitor_type_runs_all [OF n a t r o] show ?thesis
    by (simp add: output_of_def initial_state_def all_commands_def)
qed

section \<open>Properties of the dispatcher\<close>

text \<open>What the body of the handler throws or rejects with never leaves the handler.\<close>

lemma call_tool_never_rejects: "fst (call_tool w req st) \<noteq> Rejected err"
proof -
  have "catch_error r \<noteq> Rejected err" for r
    by (cases r) simp_all
  then show ?thesis by (simp add: call_tool_def split_beta)
qed

lemma await_not_uncaught:
  assumes "p \<noteq> Uncaught err" and "\<And>v. k v \<noteq> Uncaught err"
  shows "await p k \<noteq> Uncaught err"
  using assms by (cases p) simp_all

lemma first_conn_event_not_uncaught: "first_conn_event conn evs \<noteq> Uncaught err"
  by (induction conn evs rule: first_conn_event.induct) simp_all

lemma getSSHConnection_outcome_not_uncaught: "getSSHConnection_outcome w a \<noteq> Uncaught err"
  by (cases a) (simp_all add: createSSHConnection_def first_conn_event_not_uncaught)

lemma channel_run_not_uncaught: "channel_run out e evs \<noteq> Uncaught err"
  by (induction out e evs rule: channel_run.induct) simp_all

lemma executeRemoteCommand_outcome_not_uncaught:
  "executeRemoteCommand_outcome w cmd a \<noteq> Uncaught err"
  unfolding executeRemoteCommand_outcome_def
  by (intro await_not_uncaught getSSHConnection_outcome_not_uncaught)
     (simp add: conn_exec_def channel_run_not_uncaught split: sum.splits)

lemma all_settle_not_uncaught:
  assumes "\<forall>p \<in> set ps. p \<noteq> Uncaught err"
  shows "all_settle ps vals order \<noteq> Uncaught err"
  using assms
proof (induction order arbitrary: vals)
  case Nil
  show ?case by simp
next
  case (Cons i order)
  show ?case
  proof (cases "i < length ps")
    case False
    with Cons show ?thesis by simp
  next
    case True
    with Cons.prems have "ps ! i \<noteq> Uncaught err" by simp
    with True Cons.IH [OF Cons.prems] show ?thesis
      by (cases "ps ! i") (simp_all add: Let_def)
  qed
qed

lemma Promise_all_not_uncaught:
  assumes "\<forall>p \<in> set ps. p \<noteq> Uncaught err"
  shows "Promise_all ps order \<noteq> Uncaught err"
  using all_settle_not_uncaught [OF assms] by (simp add: Promise_all_def)

lemma executeRemoteCommand_not_uncaught:
  "fst (executeRemoteCommand w cmd st) \<noteq> Uncaught err"
  by (simp add: executeRemoteCommand_def split_beta executeRemoteCommand_outcome_not_uncaught)

lemma getSSHConnection_not_uncaught: "fst (getSSHConnection w st) \<noteq> Uncaught err"
  by (simp add: getSSHConnection_def split_beta getSSHConnection_outcome_not_uncaught)

lemma getRemoteFileContent_not_uncaught:
  "fst (getRemoteFileContent w path st) \<noteq> Uncaught err"
  unfolding getRemoteFileContent_def split_beta Let_def fst_conv
  by (intro await_not_uncaught getSSHConnection_not_uncaught)
     (simp split: option.splits sum.splits)

lemma ok_not_uncaught: "ok t \<noteq> Uncaught err"
  by (simp add: ok_def)

lemma execute_command_not_uncaught: "fst (execute_command w req st) \<noteq> Uncaught err"
  by (simp add: execute_command_def Let_def split_beta await_not_uncaught
        executeRemoteCommand_not_uncaught ok_not_uncaught)

lemma read_file_not_uncaught: "fst (read_file w req st) \<noteq> Uncaught err"
  by (simp add: read_file_def Let_def split_beta await_not_uncaught
        getRemoteFileContent_not_uncaught ok_not_uncaught)

lemma write_file_not_uncaught: "fst (write_file w req st) \<noteq> Uncaught err"
  by (simp add: write_file_def Let_def split_beta await_not_uncaught
        executeRemoteCommand_not_uncaught ok_not_uncaught)

lemma list_directory_not_uncaught: "fst (list_directory w req st) \<noteq> Uncaught err"
  by (simp add: list_directory_def Let_def split_beta await_not_uncaught
        executeRemoteCommand_not_uncaught ok_not_uncaught)

lemma system_monitor_not_uncaught: "fst (system_monitor w req st) \<noteq> Uncaught err"
  unfolding system_monitor_def Let_def split_beta fst_conv
  by (intro await_not_uncaught Promise_all_not_uncaught ok_not_uncaught)
     (auto simp: executeRemoteCommand_outcome_not_uncaught)

lemma catch_error_uncaught: "catch_error r = Uncaught err \<longleftrightarrow> r = Uncaught err"
  by (cases r) simp_all

lemma download_transfer_not_uncaught: "download_transfer evs \<noteq> Uncaught err"
  by (induction evs rule: download_transfer.induct) simp_all

lemma download_file_not_uncaught: "fst (download_file w req st) \<noteq> Uncaught err"
proof -
  have "fst (downloadFile w r l st') \<noteq> Uncaught err" for r l st'
    unfolding downloadFile_def split_beta Let_def fst_conv
    by (intro await_not_uncaught getSSHConnection_not_uncaught)
       (simp add: download_transfer_not_uncaught split: option.splits)
  then show ?thesis
    by (simp add: download_file_def Let_def split_beta await_not_uncaught ok_not_uncaught)
qed

text \<open>
  Of the seven tools, only the upload can end in an uncaught exception.
\<close>

lemma only_upload_escapes:
  assumes "name req \<noteq> ''upload_file''"
  shows "fst (call_tool w req st) \<noteq> Uncaught err"
  using assms
  by (simp add: call_tool_def split_beta catch_error_uncaught tool_body_def
        execute_command_not_uncaught read_file_not_uncaught write_file_not_uncaught
        download_file_not_uncaught list_directory_not_uncaught system_monitor_not_uncaught)

lemma empty_command_is_refused:
  "call_tool w empty_command_request st =
     (Resolved \<lparr>content_text = txt_error @ ''Error: Command is required'', isError = True\<rparr>, st)"
  by (simp add: call_tool_def tool_body_def execute_command_def empty_command_request_def
        arg_def error_to_string_def)

text \<open>
  C3 fails on the code for an argument that is missing: \<^verbatim>\<open>String(undefined)\<close> is the
  text \<^verbatim>\<open>undefined\<close>, which is not empty, so the check \<^verbatim>\<open>if (!command)\<close> lets it pass.
  For a request to \<^verbatim>\<open>execute_command\<close> with no \<^verbatim>\<open>command\<close>, the handler opens a
  session, runs the command \<^verbatim>\<open>undefined\<close> on the host and returns its result as a
  response that is no error.
\<close>

theorem missing_command_is_executed:
  "fst (call_tool example_world no_command_request initial_state) =
     ok (txt_command @ ''undefined'' @ nl @ txt_exit_code @ ''0'' @ nl @ nl @ txt_stdout @ nl @
         ''output of undefined'' @ nl @ nl @ txt_stderr @ nl) \<and>
   calls (snd (call_tool example_world no_command_request initial_state)) =
     [ExecuteRemoteCommand ''undefined''] \<and>
   length (opened (snd (call_tool example_world no_command_request initial_state))) = 1"
  by code_simp

text \<open>
  C8 fails on the code for an upload whose read stream fails: \<^verbatim>\<open>uploadFile\<close> listens
  for \<^verbatim>\<open>'error'\<close> on the write stream only. An upload of a local file that does not
  exist ends in an uncaught exception of the process instead of a response, while
  reading a remote file that does not exist gives an error response with the cause in
  its text.
\<close>

theorem read_stream_error_is_uncaught:
  "fst (call_tool example_world upload_request initial_state) =
     Uncaught ''ENOENT: no such file or directory, open /no/such/file'' \<and>
   fst (call_tool example_world read_request initial_state) =
     Resolved \<lparr>content_text = txt_error @ ''Error: No such file'', isError = True\<rparr>"
  by code_simp

text \<open>
  C1 fails on the code: \<^verbatim>\<open>JSON.stringify\<close> puts the content between double quotes and
  escapes double quotes and backslashes, but between double quotes the shell still
  performs command substitution. For the content \<^verbatim>\<open>a"b$(whoami)\<close> and the path
  \<^verbatim>\<open>/tmp/x\<close> the handler runs \<^verbatim>\<open>echo "a\"b$(whoami)" > "/tmp/x"\<close>, in which the shell
  comes to the substitution \<^verbatim>\<open>$(whoami)\<close>.
\<close>

theorem write_file_command_substitutes:
  "write_file_command ''/tmp/x'' injection_content =
     ''echo '' @ [CHR 0x22] @ ''a'' @ [CHR 0x5C, CHR 0x22] @ ''b$(whoami)'' @ [CHR 0x22] @
     '' > '' @ [CHR 0x22] @ ''/tmp/x'' @ [CHR 0x22] \<and>
   substitutes Unquoted (write_file_command ''/tmp/x'' injection_content) \<and>
   calls (snd (call_tool example_world write_request initial_state)) =
     [ExecuteRemoteCommand (write_file_command ''/tmp/x'' injection_content)]"
  by code_simp

end
